theory Spec2Isabelle
  imports Main
begin

section \<open>Values, fragments and errors\<close>

text \<open>
  An error value of Go (\<^verbatim>\<open>errors.New\<close>, \<^verbatim>\<open>fmt.Errorf\<close>), given by its message.
  A panic of the source is the \<open>Inl\<close> side of a sum; the Go result pair
  \<^verbatim>\<open>(x, err)\<close> is a pair whose last component is an \<open>error option\<close>.
\<close>

datatype error = Error string

text \<open>
  \<open>val\<close> is a Go \<^verbatim>\<open>interface{}\<close> value: \<^verbatim>\<open>nil\<close>, a string, an int, a bool, a value of
  any other type that has no \<^verbatim>\<open>ToSql\<close> method (known by the name \<^verbatim>\<open>%T\<close> prints), or a value
  implementing \<^verbatim>\<open>Sqlizer\<close>.

  \<open>sqlizer\<close> is a value implementing the interface \<^verbatim>\<open>Sqlizer\<close>: a \<^verbatim>\<open>*part\<close> (part.go), an
  \<^verbatim>\<open>expr\<close>, or an implementation declared elsewhere, which is known only by what its
  \<^verbatim>\<open>ToSql\<close> does: it returns a text and arguments (\<open>Other\<close>) or it panics (\<open>Panics\<close>).
\<close>

datatype val =
    VNil
  | VString string
  | VInt int
  | VBool bool
  | VOther string
  | VSqlizer sqlizer
and sqlizer =
    Part val "val list"
  | Expr string "val list"
  | Other string "val list"
  | Panics error

text \<open>The type \<^verbatim>\<open>expr\<close> (fields \<^verbatim>\<open>sql\<close>, \<^verbatim>\<open>args\<close>) and the slice type \<^verbatim>\<open>exprs\<close>.\<close>

type_synonym expr = "string \<times> val list"

type_synonym exprs = "expr list"

text \<open>
  Modelled from the spec: the method \<^verbatim>\<open>expr.ToSql\<close> is not in part.go. An \<^verbatim>\<open>expr\<close> is the
  raw fragment of the spec, literal SQL text plus a fixed argument sequence, and renders
  to these.
\<close>

definition expr_ToSql :: "expr \<Rightarrow> error + (string \<times> val list)" where
  "expr_ToSql e = Inr (fst e, snd e)"

text \<open>
  \<^verbatim>\<open>part.ToSql\<close>, with the dynamic dispatch of \<^verbatim>\<open>pred.ToSql()\<close> in its \<^verbatim>\<open>Sqlizer\<close> case.
  The default case of the type switch panics with the type name of \<^verbatim>\<open>pred\<close>.
\<close>

fun Sqlizer_ToSql :: "sqlizer \<Rightarrow> error + (string \<times> val list)" where
  "Sqlizer_ToSql (Part VNil args) = Inr ([], [])"
| "Sqlizer_ToSql (Part (VSqlizer pred) args) = Sqlizer_ToSql pred"
| "Sqlizer_ToSql (Part (VString pred) args) = Inr (pred, args)"
| "Sqlizer_ToSql (Part (VInt n) args) =
     Inl (Error ''expected string or Sqlizer, not int'')"
| "Sqlizer_ToSql (Part (VBool b) args) =
     Inl (Error ''expected string or Sqlizer, not bool'')"
| "Sqlizer_ToSql (Part (VOther T) args) =
     Inl (Error (''expected string or Sqlizer, not '' @ T))"
| "Sqlizer_ToSql (Expr sql args) = expr_ToSql (sql, args)"
| "Sqlizer_ToSql (Other sql args) = Inr (sql, args)"
| "Sqlizer_ToSql (Panics e) = Inl e"

text \<open>\<^verbatim>\<open>newPart\<close>.\<close>

definition newPart :: "val \<Rightarrow> val list \<Rightarrow> sqlizer" where
  "newPart pred args = Part pred args"

section \<open>Writers\<close>

text \<open>
  An \<^verbatim>\<open>io.Writer\<close> is given by what \<^verbatim>\<open>io.WriteString\<close> does to it: the writer after the
  call and the error returned. A \<^verbatim>\<open>bytes.Buffer\<close> is its content, and writing to it appends
  and returns no error.
\<close>

type_synonym 'w writer = "'w \<Rightarrow> string \<Rightarrow> 'w \<times> error option"

definition Buffer_WriteString :: "string writer" where
  "Buffer_WriteString w s = (w @ s, None)"

text \<open>\<^verbatim>\<open>strings.Join\<close>.\<close>

fun strings_Join :: "string list \<Rightarrow> string \<Rightarrow> string" where
  "strings_Join [] sep = []"
| "strings_Join [a] sep = a"
| "strings_Join (a # b # bs) sep = a @ sep @ strings_Join (b # bs) sep"

section \<open>The fragment sequencer\<close>

text \<open>
  The loop of \<^verbatim>\<open>appendToSql\<close>: \<open>n\<close> is \<^verbatim>\<open>length\<close>, \<open>i\<close> the index of the first remaining
  part. A panic of a part's \<^verbatim>\<open>ToSql\<close> leaves the loop as \<open>Inl\<close>; a failed write returns
  \<^verbatim>\<open>(nil, err)\<close>.
\<close>

fun appendToSql_loop ::
  "'w writer \<Rightarrow> nat \<Rightarrow> nat \<Rightarrow> sqlizer list \<Rightarrow> 'w \<Rightarrow> string \<Rightarrow> val list
     \<Rightarrow> error + ('w \<times> val list \<times> error option)" where
  "appendToSql_loop ws n i [] w sep args = Inr (w, args, None)"
| "appendToSql_loop ws n i (p # ps) w sep args =
     (case Sqlizer_ToSql p of
        Inl e \<Rightarrow> Inl e
      | Inr (partSql, partArgs) \<Rightarrow>
          if length partSql = 0 then appendToSql_loop ws n (i + 1) ps w sep args
          else
            (case ws w partSql of
               (w1, Some err) \<Rightarrow> Inr (w1, [], Some err)
             | (w1, None) \<Rightarrow>
                 if int i < int n - 1 then
                   (case ws w1 sep of
                      (w2, Some err) \<Rightarrow> Inr (w2, [], Some err)
                    | (w2, None) \<Rightarrow>
                        appendToSql_loop ws n (i + 1) ps w2 sep (args @ partArgs))
                 else appendToSql_loop ws n (i + 1) ps w1 sep (args @ partArgs)))"

definition appendToSql ::
  "'w writer \<Rightarrow> sqlizer list \<Rightarrow> 'w \<Rightarrow> string \<Rightarrow> val list
     \<Rightarrow> error + ('w \<times> val list \<times> error option)" where
  "appendToSql ws parts w sep args = appendToSql_loop ws (length parts) 0 parts w sep args"

text \<open>
  The pattern \<^verbatim>\<open>if err != nil { panic(err) }\<close> after a call of \<^verbatim>\<open>appendToSql\<close>.
\<close>

definition panic_on_err ::
  "error + ('w \<times> val list \<times> error option) \<Rightarrow> error + ('w \<times> val list)" where
  "panic_on_err r =
     (case r of
        Inl e \<Rightarrow> Inl e
      | Inr (w, args, Some err) \<Rightarrow> Inl err
      | Inr (w, args, None) \<Rightarrow> Inr (w, args))"

text \<open>Sequencing of steps that may panic.\<close>

definition bind_result :: "error + 'a \<Rightarrow> ('a \<Rightarrow> error + 'b) \<Rightarrow> error + 'b" where
  "bind_result r f = (case r of Inl e \<Rightarrow> Inl e | Inr x \<Rightarrow> f x)"

section \<open>Collaborators that part.go uses and does not define\<close>

text \<open>
  A \<^verbatim>\<open>PlaceholderFormat\<close> is an interface value, given by its method
  \<^verbatim>\<open>ReplacePlaceholders\<close>: the rewritten text and the error.
\<close>

type_synonym PlaceholderFormat = "string \<Rightarrow> string \<times> error option"

text \<open>
  Modelled from the spec: the format \<^verbatim>\<open>Question\<close> is not in part.go; it is the placeholder
  format that leaves the text unchanged.
\<close>

definition Question :: PlaceholderFormat where
  "Question sql = (sql, None)"

text \<open>
  The method \<^verbatim>\<open>exprs.AppendToSql(w, sep, args)\<close> is not in part.go. The statement assemblers
  take it as a parameter: the buffer and the arguments after the call (they drop its error).
\<close>

type_synonym AppendToSql = "exprs \<Rightarrow> string \<Rightarrow> string \<Rightarrow> val list \<Rightarrow> string \<times> val list"

text \<open>
  Modelled from the spec: \<^verbatim>\<open>exprs.AppendToSql\<close> is not in part.go; this is the fragment
  sequencer of the spec on raw fragments (the non-empty texts with the separator between
  them, all arguments in order). It stands for the parameter wherever a closed term
  is needed.
\<close>

definition exprs_AppendToSql :: AppendToSql where
  "exprs_AppendToSql es w sep args =
     (w @ strings_Join (filter (\<lambda>s. s \<noteq> []) (map fst es)) sep, args @ concat (map snd es))"

section \<open>The SELECT assembler\<close>

record selectData =
  PlaceholderFormat :: PlaceholderFormat
  Prefixes :: exprs
  Options :: "string list"
  Columns :: "sqlizer list"
  From :: "sqlizer option"
  Joins :: "sqlizer list"
  WhereParts :: "sqlizer list"
  GroupBys :: "string list"
  HavingParts :: "sqlizer list"
  OrderBys :: "string list"
  Limit :: string
  Offset :: string
  Suffixes :: exprs

text \<open>
  \<^verbatim>\<open>selectData.ToSql\<close>. \<open>sql\<close> is the content of the local \<^verbatim>\<open>bytes.Buffer\<close>, \<open>args\<close> the
  result slice; both start empty. Every \<^verbatim>\<open>panic\<close> is an \<open>Inl\<close>.
\<close>

definition selectData_ToSql :: "AppendToSql \<Rightarrow> selectData \<Rightarrow> error + (string \<times> val list)" where
  "selectData_ToSql ap d =
    (if length (Columns d) = 0 then
       Inl (Error ''select statements must have at least one result column'')
     else
       let (sql, args) =
             (if 0 < length (Prefixes d) then
                (let (sql, args) = ap (Prefixes d) [] '' '' [] in (sql @ '' '', args))
              else ([], []));
           sql = sql @ ''SELECT '';
           sql = (if 0 < length (Options d) then sql @ strings_Join (Options d) '' '' @ '' ''
                  else sql)
       in
       bind_result
         (if 0 < length (Columns d) then
            panic_on_err (appendToSql Buffer_WriteString (Columns d) sql '', '' args)
          else Inr (sql, args)) (\<lambda>(sql, args).
       bind_result
         (case From d of
            None \<Rightarrow> Inr (sql, args)
          | Some from \<Rightarrow>
              panic_on_err (appendToSql Buffer_WriteString [from] (sql @ '' FROM '') [] args))
         (\<lambda>(sql, args).
       bind_result
         (if 0 < length (Joins d) then
            panic_on_err (appendToSql Buffer_WriteString (Joins d) (sql @ '' '') '' '' args)
          else Inr (sql, args)) (\<lambda>(sql, args).
       bind_result
         (if 0 < length (WhereParts d) then
            bind_result (Sqlizer_ToSql (WhereParts d ! 0)) (\<lambda>(partSql, _).
              if length (WhereParts d) = 1 \<and> length partSql = 0 then Inr (sql, args)
              else
                panic_on_err
                  (appendToSql Buffer_WriteString (WhereParts d) (sql @ '' WHERE '') '' AND ''
                     args))
          else Inr (sql, args)) (\<lambda>(sql, args).
       let sql = (if 0 < length (GroupBys d) then
                    sql @ '' GROUP BY '' @ strings_Join (GroupBys d) '', ''
                  else sql)
       in
       bind_result
         (if 0 < length (HavingParts d) then
            panic_on_err
              (appendToSql Buffer_WriteString (HavingParts d) (sql @ '' HAVING '') '' AND '' args)
          else Inr (sql, args)) (\<lambda>(sql, args).
       let sql = (if 0 < length (OrderBys d) then
                    sql @ '' ORDER BY '' @ strings_Join (OrderBys d) '', ''
                  else sql);
           sql = (if 0 < length (Limit d) then sql @ '' LIMIT '' @ Limit d else sql);
           sql = (if 0 < length (Offset d) then sql @ '' OFFSET '' @ Offset d else sql);
           (sql, args) =
             (if 0 < length (Suffixes d) then ap (Suffixes d) (sql @ '' '') '' '' args
              else (sql, args))
       in
       case PlaceholderFormat d sql of
         (sqlStr, Some err) \<Rightarrow> Inl err
       | (sqlStr, None) \<Rightarrow> Inr (sqlStr, args)))))))"

section \<open>The INSERT assembler\<close>

text \<open>
  The field \<^verbatim>\<open>Select\<close> points to a \<^verbatim>\<open>SelectBuilder\<close>, or is \<^verbatim>\<open>nil\<close>. The builder is held
  here by the struct that \<^verbatim>\<open>builder.GetStruct\<close> yields for it, which is all that
  \<^verbatim>\<open>SelectBuilder.ToSql\<close> reads.
\<close>

record insertData =
  PlaceholderFormat :: PlaceholderFormat
  Prefixes :: exprs
  Options :: "string list"
  Into :: string
  Columns :: "string list"
  Values :: "val list list"
  Suffixes :: exprs
  Select :: "selectData option"

text \<open>
  The inner loop of \<^verbatim>\<open>insertData.appendValuesToSQL\<close> over one row: the strings
  \<^verbatim>\<open>valueStrings\<close> of the values seen so far, and \<^verbatim>\<open>args\<close>.
\<close>

fun appendValuesToSQL_row :: "val list \<Rightarrow> string list \<Rightarrow> val list \<Rightarrow> string list \<times> val list" where
  "appendValuesToSQL_row [] valueStrings args = (valueStrings, args)"
| "appendValuesToSQL_row (VSqlizer (Expr e_sql e_args) # row) valueStrings args =
     appendValuesToSQL_row row (valueStrings @ [e_sql]) (args @ e_args)"
| "appendValuesToSQL_row (val # row) valueStrings args =
     appendValuesToSQL_row row (valueStrings @ [''?'']) (args @ [val])"

text \<open>The outer loop, over the rows: the strings \<^verbatim>\<open>valuesStrings\<close> so far, and \<^verbatim>\<open>args\<close>.\<close>

fun appendValuesToSQL_rows ::
  "val list list \<Rightarrow> string list \<Rightarrow> val list \<Rightarrow> string list \<times> val list" where
  "appendValuesToSQL_rows [] valuesStrings args = (valuesStrings, args)"
| "appendValuesToSQL_rows (row # rows) valuesStrings args =
     (let (valueStrings, args) = appendValuesToSQL_row row [] args
      in appendValuesToSQL_rows rows
           (valuesStrings @ [''('' @ strings_Join valueStrings '','' @ '')'']) args)"

text \<open>
  \<^verbatim>\<open>insertData.appendValuesToSQL\<close>, on the buffer \<open>w\<close> that \<^verbatim>\<open>insertData.ToSql\<close> passes: the
  buffer and \<^verbatim>\<open>args\<close> after the call, and the error.
\<close>

definition appendValuesToSQL ::
  "insertData \<Rightarrow> string \<Rightarrow> val list \<Rightarrow> string \<times> val list \<times> error option" where
  "appendValuesToSQL d w args =
     (if length (Values d) = 0 then
        (w, args, Some (Error ''values for insert statements are not set''))
      else
        let w = w @ ''VALUES '';
            (valuesStrings, args) = appendValuesToSQL_rows (Values d) [] args;
            w = w @ strings_Join valuesStrings '',''
        in (w, args, None))"

text \<open>
  \<^verbatim>\<open>insertData.appendSelectToSQL\<close>; a panic of the sub-select's \<^verbatim>\<open>ToSql\<close> is an \<open>Inl\<close>.
\<close>

definition appendSelectToSQL ::
  "AppendToSql \<Rightarrow> insertData \<Rightarrow> string \<Rightarrow> val list
     \<Rightarrow> error + (string \<times> val list \<times> error option)" where
  "appendSelectToSQL ap d w args =
     (case Select d of
        None \<Rightarrow> Inr (w, args, Some (Error ''select clause for insert statements are not set''))
      | Some sb \<Rightarrow>
          bind_result (selectData_ToSql ap sb) (\<lambda>(selectClause, sArgs).
            Inr (w @ selectClause, args @ sArgs, None)))"

text \<open>
  \<^verbatim>\<open>insertData.ToSql\<close>. The \<^verbatim>\<open>return\<close> after a failed \<^verbatim>\<open>appendValuesToSQL\<close> returns the empty
  \<^verbatim>\<open>sqlStr\<close> and the \<^verbatim>\<open>args\<close> that call gave back. \<open>finish\<close> is the rest of the function
  after the \<^verbatim>\<open>if d.Select != nil\<close> statement.
\<close>

definition insertData_ToSql :: "AppendToSql \<Rightarrow> insertData \<Rightarrow> error + (string \<times> val list)" where
  "insertData_ToSql ap d =
    (if length (Into d) = 0 then Inl (Error ''insert statements must specify a table'')
     else if length (Values d) = 0 \<and> Select d = None then
       Inl (Error
         ''insert statements must have at least one set of values or select clause'')
     else
       let (sql, args) =
             (if 0 < length (Prefixes d) then
                (let (sql, args) = ap (Prefixes d) [] '' '' [] in (sql @ '' '', args))
              else ([], []));
           sql = sql @ ''INSERT '';
           sql = (if 0 < length (Options d) then sql @ strings_Join (Options d) '' '' @ '' ''
                  else sql);
           sql = sql @ ''INTO '' @ Into d @ '' '';
           sql = (if 0 < length (Columns d) then
                    sql @ ''('' @ strings_Join (Columns d) '','' @ '') ''
                  else sql);
           finish = (\<lambda>sql args.
             let (sql, args) =
                   (if 0 < length (Suffixes d) then ap (Suffixes d) (sql @ '' '') '' '' args
                    else (sql, args))
             in
             case PlaceholderFormat d sql of
               (sqlStr, Some err) \<Rightarrow> Inl err
             | (sqlStr, None) \<Rightarrow> Inr (sqlStr, args))
       in
       if Select d \<noteq> None then
         bind_result (appendSelectToSQL ap d sql args) (\<lambda>(sql, args, err).
           case err of Some e \<Rightarrow> Inl e | None \<Rightarrow> finish sql args)
       else
         (case appendValuesToSQL d sql args of
            (sql, args, Some err) \<Rightarrow> Inr ([], args)
          | (sql, args, None) \<Rightarrow> finish sql args))"

section \<open>Builders\<close>

text \<open>
  Modelled from the spec: the package \<^verbatim>\<open>github.com/lann/builder\<close> is not in part.go. Its
  builder state store is the persistent container of the spec: a builder value refers to
  a snapshot that is never changed once created, and every operation that adds a clause
  creates a new snapshot with one field changed and returns the builder that refers to
  it. A store holds the snapshots created so far, by address; the addresses below
  \<open>next_addr\<close> are in use.
\<close>

record 'd store =
  snapshots :: "nat \<Rightarrow> 'd"
  next_addr :: nat


text \<open>
  Modelled from the spec: \<^verbatim>\<open>builder.GetStruct\<close> is not in part.go; it reads the snapshot
  that the builder refers to.
\<close>

definition builder_GetStruct :: "'d store \<Rightarrow> nat \<Rightarrow> 'd" where
  "builder_GetStruct st b = snapshots st b"




text \<open>
  \<^verbatim>\<open>SelectBuilder.ToSql\<close> and \<^verbatim>\<open>InsertBuilder.ToSql\<close>: the result of the render call and the
  store after it.
\<close>

definition SelectBuilder_ToSql ::
  "AppendToSql \<Rightarrow> selectData store \<Rightarrow> nat
     \<Rightarrow> (error + (string \<times> val list)) \<times> selectData store" where
  "SelectBuilder_ToSql ap st b =
     (let data = builder_GetStruct st b in (selectData_ToSql ap data, st))"









section \<open>Renders that depend on state outside the snapshot\<close>

text \<open>
  \<^verbatim>\<open>Sqlizer\<close> is an interface: a snapshot may hold a fragment of any type with a \<^verbatim>\<open>ToSql\<close>
  method, and such a method may read and change state that is not part of the snapshot
  (the order in which the Go runtime walks a map, a counter, a clock). A computation of
  this kind takes the state and returns its result and the state after it.
\<close>

type_synonym ('a, 's) run = "'s \<Rightarrow> 'a \<times> 's"

text \<open>
  A fragment as a render call meets it: a fragment of the model above, whose render is the
  same at every call (\<open>Known\<close>); a value of a type declared elsewhere, given by what its
  \<^verbatim>\<open>ToSql\<close> does to the state (\<open>Foreign\<close>); or a \<^verbatim>\<open>*part\<close> whose predicate is such a fragment
  (\<open>PartOf\<close>), which \<^verbatim>\<open>part.ToSql\<close> renders by calling the predicate's \<^verbatim>\<open>ToSql\<close>.
\<close>

datatype 's fragment =
    Known sqlizer
  | Foreign "(error + (string \<times> val list), 's) run"
  | PartOf "'s fragment" "val list"

fun fragment_ToSql :: "'s fragment \<Rightarrow> (error + (string \<times> val list), 's) run" where
  "fragment_ToSql (Known p) s = (Sqlizer_ToSql p, s)"
| "fragment_ToSql (Foreign ToSql) s = ToSql s"
| "fragment_ToSql (PartOf pred args) s = fragment_ToSql pred s"

text \<open>
  \<^verbatim>\<open>appendToSql\<close> once more, with the state handed from each call of \<^verbatim>\<open>p.ToSql()\<close> to the
  next, in the order of the loop.
\<close>

fun appendToSql_run_loop ::
  "'w writer \<Rightarrow> nat \<Rightarrow> nat \<Rightarrow> 's fragment list \<Rightarrow> 'w \<Rightarrow> string \<Rightarrow> val list
     \<Rightarrow> (error + ('w \<times> val list \<times> error option), 's) run" where
  "appendToSql_run_loop ws n i [] w sep args s = (Inr (w, args, None), s)"
| "appendToSql_run_loop ws n i (p # ps) w sep args s =
     (case fragment_ToSql p s of
        (Inl e, s1) \<Rightarrow> (Inl e, s1)
      | (Inr (partSql, partArgs), s1) \<Rightarrow>
          if length partSql = 0 then appendToSql_run_loop ws n (i + 1) ps w sep args s1
          else
            (case ws w partSql of
               (w1, Some err) \<Rightarrow> (Inr (w1, [], Some err), s1)
             | (w1, None) \<Rightarrow>
                 if int i < int n - 1 then
                   (case ws w1 sep of
                      (w2, Some err) \<Rightarrow> (Inr (w2, [], Some err), s1)
                    | (w2, None) \<Rightarrow>
                        appendToSql_run_loop ws n (i + 1) ps w2 sep (args @ partArgs) s1)
                 else appendToSql_run_loop ws n (i + 1) ps w1 sep (args @ partArgs) s1))"

definition appendToSql_run ::
  "'w writer \<Rightarrow> 's fragment list \<Rightarrow> 'w \<Rightarrow> string \<Rightarrow> val list
     \<Rightarrow> (error + ('w \<times> val list \<times> error option), 's) run" where
  "appendToSql_run ws parts w sep args =
     appendToSql_run_loop ws (length parts) 0 parts w sep args"

text \<open>Sequencing of steps that may panic and that hand the state on.\<close>

definition return_run :: "'a \<Rightarrow> (error + 'a, 's) run" where
  "return_run x s = (Inr x, s)"

definition bind_run ::
  "(error + 'a, 's) run \<Rightarrow> ('a \<Rightarrow> (error + 'b, 's) run) \<Rightarrow> (error + 'b, 's) run" where
  "bind_run c f s = (case c s of (Inl e, s1) \<Rightarrow> (Inl e, s1) | (Inr x, s1) \<Rightarrow> f x s1)"

definition panic_on_err_run ::
  "(error + ('w \<times> val list \<times> error option), 's) run \<Rightarrow> (error + ('w \<times> val list), 's) run" where
  "panic_on_err_run c s = (case c s of (r, s1) \<Rightarrow> (panic_on_err r, s1))"

text \<open>
  The struct \<^verbatim>\<open>selectData\<close> with such fragments in its slots. The placeholder format is an
  interface value too: its method takes the state and hands it on.
\<close>

record 's selectData_run =
  run_PlaceholderFormat :: "string \<Rightarrow> (string \<times> error option, 's) run"
  run_Prefixes :: exprs
  run_Options :: "string list"
  run_Columns :: "'s fragment list"
  run_From :: "'s fragment option"
  run_Joins :: "'s fragment list"
  run_WhereParts :: "'s fragment list"
  run_GroupBys :: "string list"
  run_HavingParts :: "'s fragment list"
  run_OrderBys :: "string list"
  run_Limit :: string
  run_Offset :: string
  run_Suffixes :: exprs

text \<open>The parameter for \<^verbatim>\<open>exprs.AppendToSql\<close>, which hands the state on as well.\<close>

type_synonym 's AppendToSql_run =
  "exprs \<Rightarrow> string \<Rightarrow> string \<Rightarrow> val list \<Rightarrow> (string \<times> val list, 's) run"

text \<open>
  \<^verbatim>\<open>selectData.ToSql\<close> once more, statement by statement, with the state handed through
  the calls in the order in which the source makes them.
\<close>

definition selectData_run_ToSql ::
  "'s AppendToSql_run \<Rightarrow> 's selectData_run \<Rightarrow> (error + (string \<times> val list), 's) run" where
  "selectData_run_ToSql ap d =
    (if length (run_Columns d) = 0 then
       (\<lambda>s. (Inl (Error ''select statements must have at least one result column''), s))
     else
       bind_run
         (if 0 < length (run_Prefixes d) then
            (\<lambda>s. case ap (run_Prefixes d) [] '' '' [] s of
                   ((sql, args), s1) \<Rightarrow> (Inr (sql @ '' '', args), s1))
          else return_run ([], [])) (\<lambda>(sql, args).
       let sql = sql @ ''SELECT '';
           sql = (if 0 < length (run_Options d) then
                    sql @ strings_Join (run_Options d) '' '' @ '' ''
                  else sql)
       in
       bind_run
         (if 0 < length (run_Columns d) then
            panic_on_err_run (appendToSql_run Buffer_WriteString (run_Columns d) sql '', '' args)
          else return_run (sql, args)) (\<lambda>(sql, args).
       bind_run
         (case run_From d of
            None \<Rightarrow> return_run (sql, args)
          | Some from \<Rightarrow>
              panic_on_err_run
                (appendToSql_run Buffer_WriteString [from] (sql @ '' FROM '') [] args))
         (\<lambda>(sql, args).
       bind_run
         (if 0 < length (run_Joins d) then
            panic_on_err_run
              (appendToSql_run Buffer_WriteString (run_Joins d) (sql @ '' '') '' '' args)
          else return_run (sql, args)) (\<lambda>(sql, args).
       bind_run
         (if 0 < length (run_WhereParts d) then
            bind_run (fragment_ToSql (run_WhereParts d ! 0)) (\<lambda>(partSql, _).
              if length (run_WhereParts d) = 1 \<and> length partSql = 0 then return_run (sql, args)
              else
                panic_on_err_run
                  (appendToSql_run Buffer_WriteString (run_WhereParts d) (sql @ '' WHERE '')
                     '' AND '' args))
          else return_run (sql, args)) (\<lambda>(sql, args).
       let sql = (if 0 < length (run_GroupBys d) then
                    sql @ '' GROUP BY '' @ strings_Join (run_GroupBys d) '', ''
                  else sql)
       in
       bind_run
         (if 0 < length (run_HavingParts d) then
            panic_on_err_run
              (appendToSql_run Buffer_WriteString (run_HavingParts d) (sql @ '' HAVING '')
                 '' AND '' args)
          else return_run (sql, args)) (\<lambda>(sql, args).
       let sql = (if 0 < length (run_OrderBys d) then
                    sql @ '' ORDER BY '' @ strings_Join (run_OrderBys d) '', ''
                  else sql);
           sql = (if 0 < length (run_Limit d) then sql @ '' LIMIT '' @ run_Limit d else sql);
           sql = (if 0 < length (run_Offset d) then sql @ '' OFFSET '' @ run_Offset d
                  else sql)
       in
       bind_run
         (if 0 < length (run_Suffixes d) then
            (\<lambda>s. case ap (run_Suffixes d) (sql @ '' '') '' '' args s of
                   (r, s1) \<Rightarrow> (Inr r, s1))
          else return_run (sql, args)) (\<lambda>(sql, args) s.
       case run_PlaceholderFormat d sql s of
         ((sqlStr, Some err), s1) \<Rightarrow> (Inl err, s1)
       | ((sqlStr, None), s1) \<Rightarrow> (Inr (sqlStr, args), s1)))))))))"

text \<open>The struct \<^verbatim>\<open>insertData\<close> whose sub-select is such a SELECT snapshot.\<close>

record 's insertData_run =
  irun_PlaceholderFormat :: "string \<Rightarrow> (string \<times> error option, 's) run"
  irun_Prefixes :: exprs
  irun_Options :: "string list"
  irun_Into :: string
  irun_Columns :: "string list"
  irun_Values :: "val list list"
  irun_Suffixes :: exprs
  irun_Select :: "'s selectData_run option"

text \<open>
  \<^verbatim>\<open>insertData.appendValuesToSQL\<close>, \<^verbatim>\<open>insertData.appendSelectToSQL\<close> and \<^verbatim>\<open>insertData.ToSql\<close>
  once more, on this struct. The rows of values are data and call no foreign code.
\<close>

definition appendValuesToSQL_run ::
  "'s insertData_run \<Rightarrow> string \<Rightarrow> val list \<Rightarrow> string \<times> val list \<times> error option" where
  "appendValuesToSQL_run d w args =
     (if length (irun_Values d) = 0 then
        (w, args, Some (Error ''values for insert statements are not set''))
      else
        let w = w @ ''VALUES '';
            (valuesStrings, args) = appendValuesToSQL_rows (irun_Values d) [] args;
            w = w @ strings_Join valuesStrings '',''
        in (w, args, None))"

definition appendSelectToSQL_run ::
  "'s AppendToSql_run \<Rightarrow> 's insertData_run \<Rightarrow> string \<Rightarrow> val list
     \<Rightarrow> (error + (string \<times> val list \<times> error option), 's) run" where
  "appendSelectToSQL_run ap d w args =
     (case irun_Select d of
        None \<Rightarrow>
          return_run (w, args, Some (Error ''select clause for insert statements are not set''))
      | Some sb \<Rightarrow>
          bind_run (selectData_run_ToSql ap sb) (\<lambda>(selectClause, sArgs).
            return_run (w @ selectClause, args @ sArgs, None)))"

definition insertData_run_ToSql ::
  "'s AppendToSql_run \<Rightarrow> 's insertData_run \<Rightarrow> (error + (string \<times> val list), 's) run" where
  "insertData_run_ToSql ap d =
    (if length (irun_Into d) = 0 then
       (\<lambda>s. (Inl (Error ''insert statements must specify a table''), s))
     else if length (irun_Values d) = 0 \<and> irun_Select d = None then
       (\<lambda>s. (Inl (Error
         ''insert statements must have at least one set of values or select clause''), s))
     else
       bind_run
         (if 0 < length (irun_Prefixes d) then
            (\<lambda>s. case ap (irun_Prefixes d) [] '' '' [] s of
                   ((sql, args), s1) \<Rightarrow> (Inr (sql @ '' '', args), s1))
          else return_run ([], [])) (\<lambda>(sql, args).
       let sql = sql @ ''INSERT '';
           sql = (if 0 < length (irun_Options d) then
                    sql @ strings_Join (irun_Options d) '' '' @ '' ''
                  else sql);
           sql = sql @ ''INTO '' @ irun_Into d @ '' '';
           sql = (if 0 < length (irun_Columns d) then
                    sql @ ''('' @ strings_Join (irun_Columns d) '','' @ '') ''
                  else sql);
           finish = (\<lambda>sql args.
             bind_run
               (if 0 < length (irun_Suffixes d) then
                  (\<lambda>s. case ap (irun_Suffixes d) (sql @ '' '') '' '' args s of
                         (r, s1) \<Rightarrow> (Inr r, s1))
                else return_run (sql, args)) (\<lambda>(sql, args) s.
             case irun_PlaceholderFormat d sql s of
               ((sqlStr, Some err), s1) \<Rightarrow> (Inl err, s1)
             | ((sqlStr, None), s1) \<Rightarrow> (Inr (sqlStr, args), s1)))
       in
       if irun_Select d \<noteq> None then
         bind_run (appendSelectToSQL_run ap d sql args) (\<lambda>(sql, args, err).
           case err of Some e \<Rightarrow> (\<lambda>s. (Inl e, s)) | None \<Rightarrow> finish sql args)
       else
         (case appendValuesToSQL_run d sql args of
            (sql, args, Some err) \<Rightarrow> return_run ([], args)
          | (sql, args, None) \<Rightarrow> finish sql args)))"

text \<open>\<^verbatim>\<open>SelectBuilder.ToSql\<close> and \<^verbatim>\<open>InsertBuilder.ToSql\<close> on a store of such snapshots.\<close>

definition SelectBuilder_run_ToSql ::
  "'s AppendToSql_run \<Rightarrow> 's selectData_run store \<Rightarrow> nat
     \<Rightarrow> (error + (string \<times> val list), 's) run" where
  "SelectBuilder_run_ToSql ap st b =
     (let data = builder_GetStruct st b in selectData_run_ToSql ap data)"

definition InsertBuilder_run_ToSql ::
  "'s AppendToSql_run \<Rightarrow> 's insertData_run store \<Rightarrow> nat
     \<Rightarrow> (error + (string \<times> val list), 's) run" where
  "InsertBuilder_run_ToSql ap st b =
     (let data = builder_GetStruct st b in insertData_run_ToSql ap data)"

text \<open>
  A snapshot of the model above as a snapshot of this kind: each of its fragments is
  \<open>Known\<close>, and its placeholder format and the sequencer of prefixes and suffixes leave the
  state as it is.
\<close>

definition pure_AppendToSql :: "AppendToSql \<Rightarrow> 's AppendToSql_run" where
  "pure_AppendToSql ap es w sep args s = (ap es w sep args, s)"

definition known_select :: "selectData \<Rightarrow> 's selectData_run" where
  "known_select d =
     \<lparr>run_PlaceholderFormat = (\<lambda>sql s. (selectData.PlaceholderFormat d sql, s)),
      run_Prefixes = selectData.Prefixes d, run_Options = selectData.Options d,
      run_Columns = map Known (selectData.Columns d), run_From = map_option Known (From d),
      run_Joins = map Known (Joins d), run_WhereParts = map Known (WhereParts d),
      run_GroupBys = GroupBys d, run_HavingParts = map Known (HavingParts d),
      run_OrderBys = OrderBys d, run_Limit = Limit d, run_Offset = Offset d,
      run_Suffixes = selectData.Suffixes d\<rparr>"

definition known_insert :: "insertData \<Rightarrow> 's insertData_run" where
  "known_insert d =
     \<lparr>irun_PlaceholderFormat = (\<lambda>sql s. (insertData.PlaceholderFormat d sql, s)),
      irun_Prefixes = insertData.Prefixes d, irun_Options = insertData.Options d,
      irun_Into = Into d, irun_Columns = insertData.Columns d, irun_Values = Values d,
      irun_Suffixes = insertData.Suffixes d,
      irun_Select = map_option known_select (Select d)\<rparr>"

section \<open>What the claims say, as definitions\<close>

text \<open>
  The text and the arguments that one value of a row contributes to a VALUES clause, in
  the words of the claim on \<^verbatim>\<open>appendValuesToSQL\<close>: a value of the expression type gives its
  own SQL text and its argument list, every other value gives one placeholder and itself.
  A row is the parenthesized, comma-joined group of its values.
\<close>

fun value_text_spec :: "val \<Rightarrow> string" where
  "value_text_spec (VSqlizer (Expr e_sql e_args)) = e_sql"
| "value_text_spec val = ''?''"

fun value_args_spec :: "val \<Rightarrow> val list" where
  "value_args_spec (VSqlizer (Expr e_sql e_args)) = e_args"
| "value_args_spec val = [val]"

definition row_text_spec :: "val list \<Rightarrow> string" where
  "row_text_spec row = ''('' @ strings_Join (map value_text_spec row) '','' @ '')''"

text \<open>
  The writes of \<^verbatim>\<open>appendToSql\<close>, to say which write fails on a writer that can fail:
  \<open>appendToSql_writes\<close> lists the strings that the loop hands to the writer when the parts
  render to \<open>rs\<close>, in the order of the loop, and \<open>write_all\<close> hands a list of strings to a
  writer and stops at the first write that returns an error.
\<close>

fun write_all :: "'w writer \<Rightarrow> 'w \<Rightarrow> string list \<Rightarrow> 'w \<times> error option" where
  "write_all ws w [] = (w, None)"
| "write_all ws w (s # ss) =
     (case ws w s of
        (w1, Some err) \<Rightarrow> (w1, Some err)
      | (w1, None) \<Rightarrow> write_all ws w1 ss)"

fun appendToSql_writes :: "nat \<Rightarrow> nat \<Rightarrow> (string \<times> val list) list \<Rightarrow> string \<Rightarrow> string list" where
  "appendToSql_writes n i [] sep = []"
| "appendToSql_writes n i ((partSql, partArgs) # rs) sep =
     (if length partSql = 0 then []
      else if int i < int n - 1 then [partSql, sep]
      else [partSql]) @ appendToSql_writes n (i + 1) rs sep"

text \<open>
  The text and arguments that \<^verbatim>\<open>insertData.ToSql\<close> has assembled when it reaches the payload
  (prefixes, \<^verbatim>\<open>INSERT\<close>, options, \<^verbatim>\<open>INTO\<close>, table, columns), and what it does to them
  after the payload and before the placeholder format (suffixes).
\<close>

definition insert_before_payload :: "AppendToSql \<Rightarrow> insertData \<Rightarrow> string \<times> val list" where
  "insert_before_payload ap d =
     (let (sql, args) =
            (if 0 < length (insertData.Prefixes d) then
               (let (sql, args) = ap (insertData.Prefixes d) [] '' '' [] in (sql @ '' '', args))
             else ([], []));
          sql = sql @ ''INSERT '';
          sql = (if 0 < length (insertData.Options d) then
                   sql @ strings_Join (insertData.Options d) '' '' @ '' ''
                 else sql);
          sql = sql @ ''INTO '' @ Into d @ '' '';
          sql = (if 0 < length (insertData.Columns d) then
                   sql @ ''('' @ strings_Join (insertData.Columns d) '','' @ '') ''
                 else sql)
      in (sql, args))"

definition insert_after_payload ::
  "AppendToSql \<Rightarrow> insertData \<Rightarrow> string \<Rightarrow> val list \<Rightarrow> string \<times> val list" where
  "insert_after_payload ap d sql args =
     (if 0 < length (insertData.Suffixes d) then
        ap (insertData.Suffixes d) (sql @ '' '') '' '' args
      else (sql, args))"

text \<open>
  A computation is fixed when it returns one and the same result from every state and
  leaves the state as it is. A snapshot is fixed when the \<^verbatim>\<open>ToSql\<close> of each fragment
  in its slots and its placeholder format are; an INSERT snapshot, when its sub-select and
  its placeholder format are.
\<close>

definition fixed_run :: "('a, 's) run \<Rightarrow> bool" where
  "fixed_run c = (\<exists>r. \<forall>s. c s = (r, s))"

definition fixed_AppendToSql :: "'s AppendToSql_run \<Rightarrow> bool" where
  "fixed_AppendToSql ap = (\<forall>es w sep args. fixed_run (ap es w sep args))"

definition fixed_select :: "'s selectData_run \<Rightarrow> bool" where
  "fixed_select d =
     ((\<forall>p \<in> set (run_Columns d) \<union> set_option (run_From d) \<union> set (run_Joins d) \<union>
          set (run_WhereParts d) \<union> set (run_HavingParts d). fixed_run (fragment_ToSql p)) \<and>
      (\<forall>sql. fixed_run (run_PlaceholderFormat d sql)))"

definition fixed_insert :: "'s insertData_run \<Rightarrow> bool" where
  "fixed_insert d =
     ((\<forall>sb \<in> set_option (irun_Select d). fixed_select sb) \<and>
      (\<forall>sql. fixed_run (irun_PlaceholderFormat d sql)))"

section \<open>Concrete snapshots and stores\<close>

text \<open>The snapshot of \<^verbatim>\<open>SELECT id FROM users\<close>, with the format that rewrites nothing.\<close>

definition example_select :: selectData where
  "example_select =
     \<lparr>selectData.PlaceholderFormat = Question, Prefixes = [], Options = [],
      Columns = [newPart (VString ''id'') []], From = Some (newPart (VString ''users'') []),
      Joins = [], WhereParts = [], GroupBys = [], HavingParts = [], OrderBys = [],
      Limit = [], Offset = [], Suffixes = []\<rparr>"

text \<open>An INSERT snapshot that has both a row of values and a sub-select.\<close>

definition example_insert :: insertData where
  "example_insert =
     \<lparr>insertData.PlaceholderFormat = Question, Prefixes = [], Options = [],
      Into = ''archive'', Columns = [''id''], Values = [[VInt 7]], Suffixes = [],
      Select = Some example_select\<rparr>"

text \<open>An INSERT snapshot with two rows of values, expressions among them.\<close>

definition example_values :: insertData where
  "example_values =
     \<lparr>insertData.PlaceholderFormat = Question, Prefixes = [], Options = [],
      Into = ''t'', Columns = [],
      Values = [[VInt 7, VSqlizer (Expr ''NOW()'' [])],
                [VSqlizer (Expr ''? + 1'' [VInt 2]), VString ''x'']],
      Suffixes = [], Select = None\<rparr>"

text \<open>Stores in which one builder exists, at address 0.\<close>

definition example_select_store :: "selectData store" where
  "example_select_store = \<lparr>snapshots = (\<lambda>_. example_select), next_addr = 1\<rparr>"


text \<open>A writer with room for a number of bytes; a write that does not fit fails.\<close>

definition example_short_writer :: "nat writer" where
  "example_short_writer room s =
     (if length s \<le> room then (room - length s, None) else (room, Some (Error ''short write'')))"

text \<open>
  The format \<open>Question\<close> and the sequencer \<open>exprs_AppendToSql\<close> as computations that leave
  the state as it is.
\<close>

definition Question_run :: "string \<Rightarrow> (string \<times> error option, 's) run" where
  "Question_run sql s = (Question sql, s)"

definition exprs_AppendToSql_run :: "'s AppendToSql_run" where
  "exprs_AppendToSql_run es w sep args s = (exprs_AppendToSql es w sep args, s)"

text \<open>
  A foreign fragment that renders a column list from a map: the state is the number of
  calls so far, and the order of the columns changes from one call to the next.
\<close>

definition example_varying_columns :: "(error + (string \<times> val list), nat) run" where
  "example_varying_columns s = (Inr (if even s then ''id, name'' else ''name, id'', []), Suc s)"

text \<open>
  The snapshot of a SELECT from \<^verbatim>\<open>users\<close> with the given column fragments, and an INSERT
  snapshot with such a sub-select.
\<close>

definition example_select_run :: "nat fragment list \<Rightarrow> nat selectData_run" where
  "example_select_run columns =
     \<lparr>run_PlaceholderFormat = Question_run, run_Prefixes = [], run_Options = [],
      run_Columns = columns, run_From = Some (Known (newPart (VString ''users'') [])),
      run_Joins = [], run_WhereParts = [], run_GroupBys = [], run_HavingParts = [],
      run_OrderBys = [], run_Limit = [], run_Offset = [], run_Suffixes = []\<rparr>"

definition example_insert_run :: "nat insertData_run" where
  "example_insert_run =
     \<lparr>irun_PlaceholderFormat = Question_run, irun_Prefixes = [], irun_Options = [],
      irun_Into = ''archive'', irun_Columns = [''id''], irun_Values = [],
      irun_Suffixes = [],
      irun_Select = Some (example_select_run [Known (newPart (VString ''id'') [])])\<rparr>"

section \<open>The wrapped predicate\<close>

text \<open>
  Claim C9. Rendering a part whose predicate is \<^verbatim>\<open>nil\<close> gives the empty text and no
  arguments; a string predicate renders as itself with the part's arguments; a predicate
  that is a fragment renders as that fragment does; and every other predicate makes the
  render fail with the error \<^verbatim>\<open>expected string or Sqlizer, not T\<close>, where \<open>T\<close> names the
  type of the predicate, instead of producing any text.
\<close>

theorem part_ToSql_cases:
  "Sqlizer_ToSql (newPart VNil args) = Inr ([], []) \<and>
   Sqlizer_ToSql (newPart (VString s) args) = Inr (s, args) \<and>
   Sqlizer_ToSql (newPart (VSqlizer f) args) = Sqlizer_ToSql f \<and>
   (pred \<noteq> VNil \<and> (\<forall>f. pred \<noteq> VSqlizer f) \<and> (\<forall>s. pred \<noteq> VString s) \<longrightarrow>
      (\<exists>T. Sqlizer_ToSql (newPart pred args) =
         Inl (Error (''expected string or Sqlizer, not '' @ T))))"
  by (cases pred) (simp_all add: newPart_def)

theorem part_ToSql_cases_witness:
  "VInt 5 \<noteq> VNil \<and> (\<forall>f. VInt 5 \<noteq> VSqlizer f) \<and> (\<forall>s. VInt 5 \<noteq> VString s) \<and>
   Sqlizer_ToSql (newPart VNil [VInt 1]) = Inr ([], []) \<and>
   Sqlizer_ToSql (newPart (VString ''a = ?'') [VInt 1]) = Inr (''a = ?'', [VInt 1]) \<and>
   Sqlizer_ToSql (newPart (VSqlizer (Expr ''b'' [])) [VInt 1]) = Sqlizer_ToSql (Expr ''b'' []) \<and>
   (\<exists>T. Sqlizer_ToSql (newPart (VInt 5) [VInt 1]) =
      Inl (Error (''expected string or Sqlizer, not '' @ T)))"
  using part_ToSql_cases [of "[VInt 1]" "''a = ?''" "Expr ''b'' []" "VInt 5"]
  by simp

section \<open>The fragment sequencer\<close>

text \<open>
  Claim C4. On a part that renders \<^verbatim>\<open>a\<close> followed by a part that renders the empty text,
  with the separator \<^verbatim>\<open>, \<close>, \<^verbatim>\<open>appendToSql\<close> writes \<^verbatim>\<open>a, \<close>: the separator follows the last
  non-empty part, since the test \<^verbatim>\<open>i < length-1\<close> counts the empty parts after it.
\<close>

theorem appendToSql_trailing_separator:
  "Sqlizer_ToSql (newPart VNil []) = Inr ([], []) \<and>
   appendToSql Buffer_WriteString [newPart (VString ''a'') [], newPart VNil []] [] '', '' [] =
     Inr (''a, '', [], None)"
  by (simp add: appendToSql_def Buffer_WriteString_def newPart_def)

text \<open>
  On a buffer, and on parts that all render, the loop returns the arguments it was given
  followed by the arguments of the parts whose text is not empty.
\<close>

lemma appendToSql_loop_args:
  "map Sqlizer_ToSql parts = map Inr rs \<Longrightarrow>
   \<exists>w'. appendToSql_loop Buffer_WriteString n i parts w sep args =
     Inr (w', args @ concat (map snd (filter (\<lambda>r. fst r \<noteq> []) rs)), None)"
proof (induction parts arbitrary: rs i w args)
  case Nil
  then show ?case by simp
next
  case (Cons p ps)
  then obtain r rs' where rs: "rs = r # rs'" and p: "Sqlizer_ToSql p = Inr r"
    and ps: "map Sqlizer_ToSql ps = map Inr rs'"
    by (cases rs) auto
  obtain s a where r: "r = (s, a)" by (cases r)
  show ?case
  proof (cases "s = []")
    case True
    with Cons.IH [OF ps, of "i + 1" w args] show ?thesis
      by (simp add: rs p r)
  next
    case False
    from Cons.IH [OF ps, of "i + 1" "w @ s @ sep" "args @ a"]
         Cons.IH [OF ps, of "i + 1" "w @ s" "args @ a"]
    show ?thesis using False
      by (simp add: rs p r Buffer_WriteString_def)
  qed
qed

text \<open>
  On any writer, the result of the loop is that of handing its writes to the writer one
  after the other: these arguments when every write succeeds, and otherwise no arguments
  and the error of the first write that fails.
\<close>

lemma appendToSql_loop_replay:
  "map Sqlizer_ToSql parts = map Inr rs \<Longrightarrow>
   appendToSql_loop ws n i parts w sep args =
     (case write_all ws w (appendToSql_writes n i rs sep) of
        (w', None) \<Rightarrow> Inr (w', args @ concat (map snd (filter (\<lambda>r. fst r \<noteq> []) rs)), None)
      | (w', Some err) \<Rightarrow> Inr (w', [], Some err))"
proof (induction parts arbitrary: rs i w args)
  case Nil
  then show ?case by simp
next
  case (Cons p ps)
  then obtain r rs' where rs: "rs = r # rs'" and p: "Sqlizer_ToSql p = Inr r"
    and ps: "map Sqlizer_ToSql ps = map Inr rs'"
    by (cases rs) auto
  obtain s a where r: "r = (s, a)" by (cases r)
  show ?case
  proof (cases "s = []")
    case True
    with Cons.IH [OF ps, of "i + 1" w args] show ?thesis
      unfolding rs r by (simp add: p r split: prod.splits option.splits)
  next
    case False
    obtain w1 e1 where w1: "ws w s = (w1, e1)" by (cases "ws w s")
    obtain w2 e2 where w2: "ws w1 sep = (w2, e2)" by (cases "ws w1 sep")
    show ?thesis
    proof (cases e1)
      case (Some err)
      then show ?thesis using False unfolding rs r by (simp add: p r w1 split: prod.splits option.splits)
    next
      case None
      show ?thesis
      proof (cases "int i < int n - 1")
        case outer: False
        with Cons.IH [OF ps, of "i + 1" w1 "args @ a"] show ?thesis
          using False None unfolding rs r by (simp add: p r w1 split: prod.splits option.splits)
      next
        case outer: True
        show ?thesis
        proof (cases e2)
          case (Some err)
          then show ?thesis using False None outer unfolding rs r by (simp add: p r w1 w2 split: prod.splits option.splits)
        next
          case inner: None
          with Cons.IH [OF ps, of "i + 1" w2 "args @ a"] show ?thesis
            using False None outer unfolding rs r by (simp add: p r w1 w2 split: prod.splits option.splits)
        qed
      qed
    qed
  qed
qed

text \<open>
  Claim C5, as stated, fails: a part with the empty string as predicate and the argument 1
  renders to the empty text with the argument 1, and \<^verbatim>\<open>appendToSql\<close> on it returns no
  argument.
\<close>

theorem appendToSql_drops_args_of_empty_part:
  "Sqlizer_ToSql (newPart (VString []) [VInt 1]) = Inr ([], [VInt 1]) \<and>
   appendToSql Buffer_WriteString [newPart (VString []) [VInt 1]] [] '', '' [] =
     Inr ([], [], None)"
  by (simp add: appendToSql_def newPart_def)

text \<open>
  Claim C5, amended. For every list of parts that all render, the argument list that
  \<^verbatim>\<open>appendToSql\<close> returns is the argument list it was given followed by the arguments, in
  the order of the parts, of exactly the parts whose rendered text is not empty; the
  arguments of a part whose rendered text is empty are left out. This is so on a buffer,
  and on any other writer when none of the writes fails. When a write fails,
  \<^verbatim>\<open>appendToSql\<close> stops at the first write that fails and returns no arguments and the error
  of that write.
\<close>

theorem appendToSql_args_of_nonempty_parts:
  "map Sqlizer_ToSql parts = map Inr rs \<Longrightarrow>
   (\<exists>w'. appendToSql Buffer_WriteString parts w sep args =
      Inr (w', args @ concat (map snd (filter (\<lambda>r. fst r \<noteq> []) rs)), None)) \<and>
   appendToSql ws parts v sep args =
     (case write_all ws v (appendToSql_writes (length parts) 0 rs sep) of
        (v', None) \<Rightarrow> Inr (v', args @ concat (map snd (filter (\<lambda>r. fst r \<noteq> []) rs)), None)
      | (v', Some err) \<Rightarrow> Inr (v', [], Some err))"
  unfolding appendToSql_def
  using appendToSql_loop_args [of parts rs "length parts" 0 w sep args]
    appendToSql_loop_replay [of parts rs ws "length parts" 0 v sep args]
  by blast

theorem appendToSql_args_of_nonempty_parts_witness:
  "map Sqlizer_ToSql
     [newPart (VString ''a = ?'') [VInt 1], newPart (VString []) [VInt 2],
      newPart (VString ''b = ?'') [VInt 3]] =
     map Inr [(''a = ?'', [VInt 1]), ([], [VInt 2]), (''b = ?'', [VInt 3])] \<and>
   (\<exists>w'. appendToSql Buffer_WriteString
      [newPart (VString ''a = ?'') [VInt 1], newPart (VString []) [VInt 2],
       newPart (VString ''b = ?'') [VInt 3]] ''WHERE '' '' AND '' [VInt 0] =
     Inr (w', [VInt 0, VInt 1, VInt 3], None)) \<and>
   appendToSql example_short_writer
      [newPart (VString ''a = ?'') [VInt 1], newPart (VString []) [VInt 2],
       newPart (VString ''b = ?'') [VInt 3]] 20 '' AND '' [VInt 0] =
     Inr (5, [VInt 0, VInt 1, VInt 3], None) \<and>
   appendToSql example_short_writer
      [newPart (VString ''a = ?'') [VInt 1], newPart (VString []) [VInt 2],
       newPart (VString ''b = ?'') [VInt 3]] 7 '' AND '' [VInt 0] =
     Inr (2, [], Some (Error ''short write''))"
proof -
  have h: "map Sqlizer_ToSql
     [newPart (VString ''a = ?'') [VInt 1], newPart (VString []) [VInt 2],
      newPart (VString ''b = ?'') [VInt 3]] =
     map Inr [(''a = ?'', [VInt 1]), ([], [VInt 2]), (''b = ?'', [VInt 3])]"
    by (simp add: newPart_def)
  show ?thesis
    using h
      appendToSql_args_of_nonempty_parts
        [OF h, of "''WHERE ''" "'' AND ''" "[VInt 0]" example_short_writer 20]
      appendToSql_args_of_nonempty_parts
        [OF h, of "''WHERE ''" "'' AND ''" "[VInt 0]" example_short_writer 7]
    by (simp add: example_short_writer_def)
qed

section \<open>The SELECT assembler\<close>



lemma example_select_ToSql:
  "selectData_ToSql exprs_AppendToSql example_select = Inr (''SELECT id FROM users'', [])"
  by (simp add: example_select_def newPart_def selectData_ToSql_def appendToSql_def
        bind_result_def panic_on_err_def Buffer_WriteString_def Question_def)

text \<open>
  Claim C6. Rendering a SELECT snapshot that has no result column fails with the error
  \<^verbatim>\<open>select statements must have at least one result column\<close>: the result is the error
  alone, with no SQL text, whatever the other fields hold; and the render call of a
  builder whose snapshot has no result column returns this error to its caller.
\<close>

theorem select_without_columns_fails:
  "(selectData.Columns d = [] \<longrightarrow>
      selectData_ToSql ap d =
        Inl (Error ''select statements must have at least one result column'')) \<and>
   (selectData.Columns (builder_GetStruct st b) = [] \<longrightarrow>
      fst (SelectBuilder_ToSql ap st b) =
        Inl (Error ''select statements must have at least one result column''))"
  by (simp add: SelectBuilder_ToSql_def selectData_ToSql_def)

theorem select_without_columns_fails_witness:
  "selectData.Columns (example_select\<lparr>selectData.Columns := []\<rparr>) = [] \<and>
   selectData.Columns
     (builder_GetStruct
        (example_select_store\<lparr>snapshots := (\<lambda>_. example_select\<lparr>selectData.Columns := []\<rparr>)\<rparr>)
        0) = [] \<and>
   selectData_ToSql exprs_AppendToSql (example_select\<lparr>selectData.Columns := []\<rparr>) =
     Inl (Error ''select statements must have at least one result column'') \<and>
   fst (SelectBuilder_ToSql exprs_AppendToSql
          (example_select_store\<lparr>snapshots := (\<lambda>_. example_select\<lparr>selectData.Columns := []\<rparr>)\<rparr>)
          0) =
     Inl (Error ''select statements must have at least one result column'')"
  using select_without_columns_fails
    [of "example_select\<lparr>selectData.Columns := []\<rparr>" exprs_AppendToSql
        "example_select_store\<lparr>snapshots := (\<lambda>_. example_select\<lparr>selectData.Columns := []\<rparr>)\<rparr>"
        0]
  by (simp add: builder_GetStruct_def)

text \<open>
  With exactly one part in the WHERE slot, and that part rendering to the empty text, the
  statement is the one rendered with an empty WHERE slot.
\<close>

lemma selectData_ToSql_one_empty_where:
  "Sqlizer_ToSql p = Inr ([], a) \<Longrightarrow>
   selectData_ToSql ap (d\<lparr>WhereParts := [p]\<rparr>) = selectData_ToSql ap (d\<lparr>WhereParts := []\<rparr>)"
  by (simp add: selectData_ToSql_def bind_result_def Let_def
        cong: prod.case_cong sum.case_cong option.case_cong if_cong)

text \<open>
  Claim C1. A SELECT snapshot whose WHERE slot holds two parts with the predicate \<^verbatim>\<open>nil\<close>,
  each of which renders to the empty text, renders to \<^verbatim>\<open>SELECT id FROM users WHERE \<close>: the
  keyword is written although nothing follows it. The test before the keyword asks for
  exactly one part in the slot.
\<close>

theorem select_where_keyword_for_two_empty_parts:
  "Sqlizer_ToSql (newPart VNil []) = Inr ([], []) \<and>
   selectData_ToSql exprs_AppendToSql
     (example_select\<lparr>WhereParts := [newPart VNil [], newPart VNil []]\<rparr>) =
     Inr (''SELECT id FROM users WHERE '', [])"
  by (simp add: example_select_def newPart_def selectData_ToSql_def appendToSql_def
        bind_result_def panic_on_err_def Buffer_WriteString_def Question_def)

section \<open>The INSERT assembler\<close>

text \<open>
  Claim C7. Rendering an INSERT snapshot with no target table fails with the error
  \<^verbatim>\<open>insert statements must specify a table\<close>; rendering one that has a target table and
  neither a row of values nor a sub-select fails with the error
  \<^verbatim>\<open>insert statements must have at least one set of values or select clause\<close>. The table is
  checked first, so a snapshot with neither table nor payload fails too, with the first
  error. In every case the result is the error alone, with no SQL text.
\<close>

theorem insert_precondition_errors:
  "(Into d = [] \<longrightarrow>
      insertData_ToSql ap d = Inl (Error ''insert statements must specify a table'')) \<and>
   (Into d \<noteq> [] \<and> Values d = [] \<and> Select d = None \<longrightarrow>
      insertData_ToSql ap d =
        Inl (Error
          ''insert statements must have at least one set of values or select clause'')) \<and>
   (Values d = [] \<and> Select d = None \<longrightarrow> (\<exists>e. insertData_ToSql ap d = Inl e))"
  by (simp add: insertData_ToSql_def)

theorem insert_precondition_errors_witness:
  "Into (example_insert\<lparr>Into := []\<rparr>) = [] \<and>
   Into (example_insert\<lparr>Values := [], Select := None\<rparr>) \<noteq> [] \<and>
   Values (example_insert\<lparr>Values := [], Select := None\<rparr>) = [] \<and>
   Select (example_insert\<lparr>Values := [], Select := None\<rparr>) = None \<and>
   insertData_ToSql exprs_AppendToSql (example_insert\<lparr>Into := []\<rparr>) =
     Inl (Error ''insert statements must specify a table'') \<and>
   insertData_ToSql exprs_AppendToSql (example_insert\<lparr>Values := [], Select := None\<rparr>) =
     Inl (Error ''insert statements must have at least one set of values or select clause'')"
  using insert_precondition_errors [of "example_insert\<lparr>Into := []\<rparr>" exprs_AppendToSql]
    insert_precondition_errors
      [of "example_insert\<lparr>Values := [], Select := None\<rparr>" exprs_AppendToSql]
  by (simp add: example_insert_def)

text \<open>With a sub-select in the snapshot, the rows of values are never read.\<close>

lemma insertData_ToSql_Values_irrelevant:
  "Select d = Some sb \<Longrightarrow> insertData_ToSql ap (d\<lparr>Values := vs\<rparr>) = insertData_ToSql ap d"
  by (simp add: insertData_ToSql_def appendSelectToSQL_def bind_result_def Let_def
        cong: prod.case_cong sum.case_cong option.case_cong if_cong)

lemma insertData_ToSql_with_Select:
  assumes "Into d \<noteq> []" and "Select d = Some sb"
    and "selectData_ToSql ap sb = Inr (selectClause, sArgs)"
    and "insert_before_payload ap d = (sql0, args0)"
    and "insert_after_payload ap d (sql0 @ selectClause) (args0 @ sArgs) = (sql, args)"
  shows "insertData_ToSql ap d =
     (case insertData.PlaceholderFormat d sql of
        (sqlStr, Some err) \<Rightarrow> Inl err
      | (sqlStr, None) \<Rightarrow> Inr (sqlStr, args))"
  using assms
  by (auto simp add: insertData_ToSql_def appendSelectToSQL_def bind_result_def
        insert_before_payload_def insert_after_payload_def Let_def
        split: if_splits prod.splits option.splits)

lemma insertData_ToSql_Select_panics:
  "Into d \<noteq> [] \<Longrightarrow> Select d = Some sb \<Longrightarrow> selectData_ToSql ap sb = Inl e \<Longrightarrow>
   insertData_ToSql ap d = Inl e"
  by (auto simp add: insertData_ToSql_def appendSelectToSQL_def bind_result_def Let_def
        split: if_splits prod.splits)

text \<open>
  Claim C8. The render of an INSERT snapshot that has a sub-select does not depend on the
  rows of values: with any rows in their place, none included, the result is the same, so
  that having both adds no text, no argument and no error. For every such snapshot with
  a target table, whatever its prefixes, options, columns and suffixes: when the
  sub-select renders, its text follows what was assembled before the payload and its
  arguments follow the arguments of the prefixes; the suffixes are appended, and the
  render returns what the placeholder format makes of that text, with these arguments; it
  fails only if the format does. When the sub-select's render fails, the render fails
  with the same error.
\<close>

theorem insert_select_precedence:
  "Select d = Some sb \<longrightarrow>
     insertData_ToSql ap (d\<lparr>Values := vs\<rparr>) = insertData_ToSql ap d \<and>
     (Into d \<noteq> [] \<and> selectData_ToSql ap sb = Inr (selectClause, sArgs) \<and>
      insert_before_payload ap d = (sql0, args0) \<and>
      insert_after_payload ap d (sql0 @ selectClause) (args0 @ sArgs) = (sql, args) \<longrightarrow>
      insertData_ToSql ap d =
        (case insertData.PlaceholderFormat d sql of
           (sqlStr, Some err) \<Rightarrow> Inl err
         | (sqlStr, None) \<Rightarrow> Inr (sqlStr, args))) \<and>
     (Into d \<noteq> [] \<and> selectData_ToSql ap sb = Inl e \<longrightarrow> insertData_ToSql ap d = Inl e)"
  using insertData_ToSql_Values_irrelevant [of d sb ap vs]
    insertData_ToSql_with_Select [of d sb ap selectClause sArgs sql0 args0 sql args]
    insertData_ToSql_Select_panics [of d sb ap e]
  by blast

theorem insert_select_precedence_witness:
  "Select (example_insert\<lparr>insertData.Suffixes := [(''RETURNING id'', [])]\<rparr>) =
     Some example_select \<and>
   Into (example_insert\<lparr>insertData.Suffixes := [(''RETURNING id'', [])]\<rparr>) \<noteq> [] \<and>
   Values (example_insert\<lparr>insertData.Suffixes := [(''RETURNING id'', [])]\<rparr>) = [[VInt 7]] \<and>
   selectData_ToSql exprs_AppendToSql example_select = Inr (''SELECT id FROM users'', []) \<and>
   insert_before_payload exprs_AppendToSql
     (example_insert\<lparr>insertData.Suffixes := [(''RETURNING id'', [])]\<rparr>) =
     (''INSERT INTO archive (id) '', []) \<and>
   insert_after_payload exprs_AppendToSql
     (example_insert\<lparr>insertData.Suffixes := [(''RETURNING id'', [])]\<rparr>)
     (''INSERT INTO archive (id) '' @ ''SELECT id FROM users'') ([] @ []) =
     (''INSERT INTO archive (id) SELECT id FROM users RETURNING id'', []) \<and>
   insertData_ToSql exprs_AppendToSql
     (example_insert\<lparr>insertData.Suffixes := [(''RETURNING id'', [])], Values := []\<rparr>) =
     insertData_ToSql exprs_AppendToSql
       (example_insert\<lparr>insertData.Suffixes := [(''RETURNING id'', [])]\<rparr>) \<and>
   insertData_ToSql exprs_AppendToSql
     (example_insert\<lparr>insertData.Suffixes := [(''RETURNING id'', [])]\<rparr>) =
     Inr (''INSERT INTO archive (id) SELECT id FROM users RETURNING id'', [])"
proof -
  have pre:
    "insert_before_payload exprs_AppendToSql
       (example_insert\<lparr>insertData.Suffixes := [(''RETURNING id'', [])]\<rparr>) =
       (''INSERT INTO archive (id) '', [])"
    by (simp add: insert_before_payload_def example_insert_def)
  have post:
    "insert_after_payload exprs_AppendToSql
       (example_insert\<lparr>insertData.Suffixes := [(''RETURNING id'', [])]\<rparr>)
       (''INSERT INTO archive (id) '' @ ''SELECT id FROM users'') ([] @ []) =
       (''INSERT INTO archive (id) SELECT id FROM users RETURNING id'', [])"
    by (simp add: insert_after_payload_def example_insert_def exprs_AppendToSql_def)
  have fields:
    "Select (example_insert\<lparr>insertData.Suffixes := [(''RETURNING id'', [])]\<rparr>) =
       Some example_select"
    "Into (example_insert\<lparr>insertData.Suffixes := [(''RETURNING id'', [])]\<rparr>) \<noteq> []"
    "Values (example_insert\<lparr>insertData.Suffixes := [(''RETURNING id'', [])]\<rparr>) = [[VInt 7]]"
    "insertData.PlaceholderFormat
       (example_insert\<lparr>insertData.Suffixes := [(''RETURNING id'', [])]\<rparr>) = Question"
    by (simp_all add: example_insert_def)
  note use = insert_select_precedence
      [of "example_insert\<lparr>insertData.Suffixes := [(''RETURNING id'', [])]\<rparr>" example_select
          exprs_AppendToSql "[]" "''SELECT id FROM users''" "[]" "''INSERT INTO archive (id) ''"
          "[]" "''INSERT INTO archive (id) SELECT id FROM users RETURNING id''" "[]"]
  from use fields(1) have indep:
    "insertData_ToSql exprs_AppendToSql
       (example_insert\<lparr>insertData.Suffixes := [(''RETURNING id'', [])], Values := []\<rparr>) =
     insertData_ToSql exprs_AppendToSql
       (example_insert\<lparr>insertData.Suffixes := [(''RETURNING id'', [])]\<rparr>)"
    by blast
  from use fields(1,2) example_select_ToSql pre post have rendered:
    "insertData_ToSql exprs_AppendToSql
       (example_insert\<lparr>insertData.Suffixes := [(''RETURNING id'', [])]\<rparr>) =
     Inr (''INSERT INTO archive (id) SELECT id FROM users RETURNING id'', [])"
    by (simp add: fields(4) Question_def)
  show ?thesis
    using fields(1,2,3) example_select_ToSql pre post indep rendered by (simp only: simp_thms)
qed

text \<open>The two loops of \<^verbatim>\<open>appendValuesToSQL\<close>, in closed form.\<close>

lemma appendValuesToSQL_row_eq:
  "appendValuesToSQL_row row valueStrings args =
     (valueStrings @ map value_text_spec row, args @ concat (map value_args_spec row))"
  by (induction row valueStrings args rule: appendValuesToSQL_row.induct) simp_all

lemma appendValuesToSQL_rows_eq:
  "appendValuesToSQL_rows rows valuesStrings args =
     (valuesStrings @ map row_text_spec rows,
      args @ concat (map value_args_spec (concat rows)))"
  by (induction rows arbitrary: valuesStrings args)
    (simp_all add: appendValuesToSQL_row_eq row_text_spec_def)

text \<open>
  Claim C10. For an INSERT snapshot with at least one row of values, \<^verbatim>\<open>appendValuesToSQL\<close>
  writes \<^verbatim>\<open>VALUES \<close> and then the rows in their order, joined by commas, each row the
  parenthesized, comma-joined texts of its values, where a value of the expression type
  gives its own SQL text and every other value gives one placeholder; and it appends, in
  the order of the values, the argument list of each expression and each other value
  itself. It returns no error.
\<close>

theorem appendValuesToSQL_inlines_expr:
  "Values d \<noteq> [] \<Longrightarrow>
   appendValuesToSQL d w args =
     (w @ ''VALUES '' @ strings_Join (map row_text_spec (Values d)) '','',
      args @ concat (map value_args_spec (concat (Values d))), None)"
  by (simp add: appendValuesToSQL_def appendValuesToSQL_rows_eq)

theorem appendValuesToSQL_inlines_expr_witness:
  "Values example_values \<noteq> [] \<and>
   appendValuesToSQL example_values ''INSERT INTO t '' [] =
     (''INSERT INTO t VALUES (?,NOW()),(? + 1,?)'', [VInt 7, VInt 2, VString ''x''], None)"
  using appendValuesToSQL_inlines_expr [of example_values "''INSERT INTO t ''" "[]"]
  by (simp add: example_values_def row_text_spec_def)

section \<open>Builders\<close>




section \<open>Rendering twice\<close>

text \<open>Composing fixed computations gives a fixed computation.\<close>

lemma fixed_runI: "(\<And>s. c s = (r, s)) \<Longrightarrow> fixed_run c"
  by (auto simp: fixed_run_def)

lemma fixed_return: "fixed_run (return_run x)"
  by (rule fixed_runI [of _ "Inr x"]) (simp add: return_run_def)

lemma fixed_const: "fixed_run (\<lambda>s. (x, s))"
  by (rule fixed_runI [of _ x]) simp

lemma fixed_bind:
  assumes "fixed_run c" and "\<And>x. fixed_run (f x)"
  shows "fixed_run (bind_run c f)"
proof -
  from assms(1) obtain r where c: "\<And>s. c s = (r, s)" by (auto simp: fixed_run_def)
  show ?thesis
  proof (cases r)
    case (Inl e)
    show ?thesis by (rule fixed_runI [of _ "Inl e"]) (simp add: bind_run_def c Inl)
  next
    case (Inr x)
    from assms(2) [of x] obtain q where f: "\<And>s. f x s = (q, s)" by (auto simp: fixed_run_def)
    show ?thesis by (rule fixed_runI [of _ q]) (simp add: bind_run_def c Inr f)
  qed
qed

lemma fixed_panic_on_err: "fixed_run c \<Longrightarrow> fixed_run (panic_on_err_run c)"
  by (auto simp: fixed_run_def panic_on_err_run_def)

lemma fixed_loop:
  "\<forall>p \<in> set ps. fixed_run (fragment_ToSql p) \<Longrightarrow>
   fixed_run (appendToSql_run_loop ws n i ps w sep args)"
proof (induction ps arbitrary: i w args)
  case Nil
  show ?case by (rule fixed_runI [of _ "Inr (w, args, None)"]) simp
next
  case (Cons p ps)
  from Cons.prems obtain r where p: "\<And>s. fragment_ToSql p s = (r, s)"
    by (auto simp: fixed_run_def)
  from Cons.prems have rest: "\<forall>p \<in> set ps. fixed_run (fragment_ToSql p)" by simp
  note IH = Cons.IH [OF rest]
  show ?case
  proof (cases r)
    case (Inl e)
    show ?thesis by (rule fixed_runI [of _ "Inl e"]) (simp add: p Inl)
  next
    case (Inr sa)
    obtain partSql partArgs where sa: "sa = (partSql, partArgs)" by (cases sa)
    obtain w1 e1 where w1: "ws w partSql = (w1, e1)" by (cases "ws w partSql")
    obtain w2 e2 where w2: "ws w1 sep = (w2, e2)" by (cases "ws w1 sep")
    from IH [of "i + 1" w args] obtain q0 where q0:
      "\<And>s. appendToSql_run_loop ws n (i + 1) ps w sep args s = (q0, s)"
      by (auto simp: fixed_run_def)
    from IH [of "i + 1" w1 "args @ partArgs"] obtain q1 where q1:
      "\<And>s. appendToSql_run_loop ws n (i + 1) ps w1 sep (args @ partArgs) s = (q1, s)"
      by (auto simp: fixed_run_def)
    from IH [of "i + 1" w2 "args @ partArgs"] obtain q2 where q2:
      "\<And>s. appendToSql_run_loop ws n (i + 1) ps w2 sep (args @ partArgs) s = (q2, s)"
      by (auto simp: fixed_run_def)
    show ?thesis
      unfolding fixed_run_def
      using q0 q1 q2
      by (cases "partSql = []"; cases "int i < int n - 1"; cases e1; cases e2)
        (simp_all add: p Inr sa w1 w2)
  qed
qed

lemma fixed_appendToSql:
  "\<forall>p \<in> set ps. fixed_run (fragment_ToSql p) \<Longrightarrow>
   fixed_run (appendToSql_run ws ps w sep args)"
  unfolding appendToSql_run_def by (rule fixed_loop)


lemma fixed_case_prod: "(\<And>a b. fixed_run (f a b)) \<Longrightarrow> fixed_run (case x of (a, b) \<Rightarrow> f a b)"
  by (cases x) simp

lemma fixed_map:
  assumes "fixed_run c" and "\<And>r s. h (r, s) = (g r, s)"
  shows "fixed_run (\<lambda>s. h (c s))"
proof -
  from assms(1) obtain r where c: "\<And>s. c s = (r, s)" by (auto simp: fixed_run_def)
  show ?thesis by (rule fixed_runI [of _ "g r"]) (simp add: c assms(2))
qed

lemma fixed_selectData_run_ToSql:
  assumes frags:
    "\<forall>p \<in> set (run_Columns d) \<union> set_option (run_From d) \<union> set (run_Joins d) \<union>
        set (run_WhereParts d) \<union> set (run_HavingParts d). fixed_run (fragment_ToSql p)"
    and format: "\<forall>sql. fixed_run (run_PlaceholderFormat d sql)"
    and ap: "\<forall>es w sep args. fixed_run (ap es w sep args)"
  shows "fixed_run (selectData_run_ToSql ap d)"
proof -
  have cols: "\<forall>p \<in> set (run_Columns d). fixed_run (fragment_ToSql p)"
    and joins: "\<forall>p \<in> set (run_Joins d). fixed_run (fragment_ToSql p)"
    and wheres: "\<forall>p \<in> set (run_WhereParts d). fixed_run (fragment_ToSql p)"
    and havings: "\<forall>p \<in> set (run_HavingParts d). fixed_run (fragment_ToSql p)"
    using frags by auto
  have "from": "\<And>f. run_From d = Some f \<Longrightarrow> \<forall>p \<in> set [f]. fixed_run (fragment_ToSql p)"
    using frags by auto
  have where0: "0 < length (run_WhereParts d) \<Longrightarrow> fixed_run (fragment_ToSql (run_WhereParts d ! 0))"
    using wheres by (cases "run_WhereParts d") auto
  have pre: "fixed_run (\<lambda>s. case ap (run_Prefixes d) [] '' '' [] s of
                   ((sql, args), s1) \<Rightarrow> (Inr (sql @ '' '', args), s1))"
    using ap
    by (intro fixed_map [where g = "\<lambda>(sql, args). Inr (sql @ '' '', args)"]) auto
  have suf: "fixed_run (\<lambda>s. case ap es w sep args s of (r, s1) \<Rightarrow> (Inr r, s1))"
    for es w sep and args :: "val list"
    using ap by (intro fixed_map [where g = Inr]) auto
  have fmt: "fixed_run (\<lambda>s. case run_PlaceholderFormat d sql s of
         ((sqlStr, Some err), s1) \<Rightarrow> (Inl err, s1)
       | ((sqlStr, None), s1) \<Rightarrow> (Inr (sqlStr, args), s1))" for sql args
    using format
    by (intro fixed_map
          [where g = "\<lambda>(sqlStr, e). case e of Some err \<Rightarrow> Inl err | None \<Rightarrow> Inr (sqlStr, args)"])
      (auto split: option.split)
  show ?thesis
    unfolding selectData_run_ToSql_def Let_def
    by (auto intro!: fixed_bind fixed_case_prod fixed_return fixed_const fixed_panic_on_err
          fixed_appendToSql pre suf fmt cols joins wheres havings "from" where0
          split: option.split)
qed

lemma fixed_select_render:
  "fixed_AppendToSql ap \<Longrightarrow> fixed_select d \<Longrightarrow> fixed_run (selectData_run_ToSql ap d)"
  unfolding fixed_AppendToSql_def fixed_select_def
  by (intro fixed_selectData_run_ToSql) auto

lemma fixed_insert_render:
  assumes ap: "fixed_AppendToSql ap" and d: "fixed_insert d"
  shows "fixed_run (insertData_run_ToSql ap d)"
proof -
  have sel: "\<And>sb. irun_Select d = Some sb \<Longrightarrow> fixed_run (selectData_run_ToSql ap sb)"
    using d ap by (auto simp: fixed_insert_def intro: fixed_select_render)
  have pre: "fixed_run (\<lambda>s. case ap (irun_Prefixes d) [] '' '' [] s of
                   ((sql, args), s1) \<Rightarrow> (Inr (sql @ '' '', args), s1))"
    using ap unfolding fixed_AppendToSql_def
    by (intro fixed_map [where g = "\<lambda>(sql, args). Inr (sql @ '' '', args)"]) auto
  have suf: "fixed_run (\<lambda>s. case ap es w sep args s of (r, s1) \<Rightarrow> (Inr r, s1))"
    for es w sep and args :: "val list"
    using ap unfolding fixed_AppendToSql_def by (intro fixed_map [where g = Inr]) auto
  have fmt: "fixed_run (\<lambda>s. case irun_PlaceholderFormat d sql s of
         ((sqlStr, Some err), s1) \<Rightarrow> (Inl err, s1)
       | ((sqlStr, None), s1) \<Rightarrow> (Inr (sqlStr, args), s1))" for sql args
    using d unfolding fixed_insert_def
    by (intro fixed_map
          [where g = "\<lambda>(sqlStr, e). case e of Some err \<Rightarrow> Inl err | None \<Rightarrow> Inr (sqlStr, args)"])
      (auto split: option.split)
  have app: "fixed_run (appendSelectToSQL_run ap d w args)" for w args
    unfolding appendSelectToSQL_run_def
    by (auto intro!: fixed_bind fixed_case_prod fixed_return sel split: option.split)
  show ?thesis
    unfolding insertData_run_ToSql_def Let_def
    by (auto intro!: fixed_bind fixed_case_prod fixed_return fixed_const pre suf fmt app
          split: option.split prod.split)
qed

lemma fixed_Known: "fixed_run (fragment_ToSql (Known p))"
  by (rule fixed_runI [of _ "Sqlizer_ToSql p"]) simp

lemma fixed_Question_run: "fixed_run (Question_run sql)"
  by (rule fixed_runI [of _ "Question sql"]) (simp add: Question_run_def)

lemma fixed_exprs_AppendToSql_run: "fixed_AppendToSql exprs_AppendToSql_run"
  unfolding fixed_AppendToSql_def
  by (intro allI fixed_runI [of _ "exprs_AppendToSql es w sep args" for es w sep args])
    (simp add: exprs_AppendToSql_run_def)

text \<open>
  On a snapshot of the model above, the render that hands the state on returns the result
  of the render above and the state it was given. The steps are rewritten from the
  inside out, each into a result paired with the unchanged state.
\<close>

lemma known_loop:
  "appendToSql_run_loop ws n i (map Known ps) w sep args s =
     (appendToSql_loop ws n i ps w sep args, s)"
  by (induction ps arbitrary: i w args)
    (auto split: sum.splits prod.splits option.splits)

lemma r_panic:
  "panic_on_err_run (appendToSql_run ws (map Known ps) w sep args) =
     (\<lambda>s. (panic_on_err (appendToSql ws ps w sep args), s))"
  by (rule ext) (simp add: panic_on_err_run_def appendToSql_run_def appendToSql_def known_loop)

lemma r_panic1:
  "panic_on_err_run (appendToSql_run ws [Known p] w sep args) =
     (\<lambda>s. (panic_on_err (appendToSql ws [p] w sep args), s))"
  using r_panic [of ws "[p]"] by simp

lemma r_return: "return_run x = (\<lambda>s. (Inr x, s))"
  by (rule ext) (simp add: return_run_def)

lemma r_bind: "bind_run (\<lambda>s. (r, s)) (\<lambda>x s. (g x, s)) = (\<lambda>s. (bind_result r g, s))"
  by (rule ext) (simp add: bind_run_def bind_result_def split: sum.splits)

lemma r_prod: "case_prod (\<lambda>a b s. (h a b, s)) = (\<lambda>x s. (case_prod h x, s))"
  by (rule ext) (simp add: split_def)

lemma r_if: "(if c then (\<lambda>s. (x, s)) else (\<lambda>s. (y, s))) = (\<lambda>s. (if c then x else y, s))"
  by simp

lemma r_opt:
  "(case opt of None \<Rightarrow> (\<lambda>s. (x, s)) | Some y \<Rightarrow> (\<lambda>s. (h y, s))) =
   (\<lambda>s. (case opt of None \<Rightarrow> x | Some y \<Rightarrow> h y, s))"
  by (cases opt) simp_all

lemma r_opt_eta:
  "case_option (\<lambda>s. (x, s)) (\<lambda>y s. (h y, s)) = (\<lambda>opt s. (case_option x h opt, s))"
  by (rule ext) (simp add: r_opt)

lemma r_let: "Let e (\<lambda>x s. (h x, s)) = (\<lambda>s. (Let e h, s))"
  by (simp add: Let_def)

lemma r_known: "fragment_ToSql (Known p) = (\<lambda>s. (Sqlizer_ToSql p, s))"
  by (rule ext) simp


lemma r_pre:
  "(\<lambda>s. case pure_AppendToSql ap es w sep args s of
          ((sql, args), s1) \<Rightarrow> (Inr (sql @ '' '', args), s1)) =
   (\<lambda>s. (Inr (case ap es w sep args of (sql, args) \<Rightarrow> (sql @ '' '', args)), s))"
  by (rule ext) (simp add: pure_AppendToSql_def split: prod.splits)

lemma r_suf:
  "(\<lambda>s. case pure_AppendToSql ap es w sep args s of (r, s1) \<Rightarrow> (Inr r, s1)) =
   (\<lambda>s. (Inr (ap es w sep args), s))"
  by (rule ext) (simp add: pure_AppendToSql_def)

lemma r_fmt:
  "(\<lambda>(sql, args) s.
       case (f sql, s) of
         ((sqlStr, Some err), s1) \<Rightarrow> (Inl err, s1)
       | ((sqlStr, None), s1) \<Rightarrow> (Inr (sqlStr, args), s1)) =
   (\<lambda>x s. (case x of (sql, args) \<Rightarrow>
        (case f sql of (sqlStr, Some err) \<Rightarrow> Inl err | (sqlStr, None) \<Rightarrow> Inr (sqlStr, args)), s))"
  by (rule ext, rule ext) (simp split: prod.splits option.splits)

lemma bind_result_Inr: "bind_result (Inr x) k = k x"
  by (simp add: bind_result_def)

lemma if_Inr: "(if c then Inr a else Inr b) = Inr (if c then a else b)"
  by simp

lemma known_select_run:
  "selectData_run_ToSql (pure_AppendToSql ap) (known_select d) =
   (\<lambda>s. (selectData_ToSql ap d, s))"
proof (cases "selectData.Columns d = []")
  case True
  then show ?thesis
    by (simp add: selectData_run_ToSql_def selectData_ToSql_def known_select_def)
next
  case False
  have nth0: "0 < length (WhereParts d) \<Longrightarrow> map Known (WhereParts d) ! 0 = Known (WhereParts d ! 0)"
    by simp
  show ?thesis
    unfolding selectData_run_ToSql_def selectData_ToSql_def known_select_def
    apply (simp only: selectData_run.simps list.map option.map length_map)
    apply (cases "From d"; cases "0 < length (WhereParts d)")
    apply (simp_all only: option.case option.map nth0 r_known r_panic r_panic1 r_return r_pre
             r_suf r_fmt r_bind r_prod r_if r_opt r_let if_True if_False)
    apply (simp_all only: bind_result_Inr if_Inr Let_def)
    done
qed

lemma known_appendValuesToSQL:
  "appendValuesToSQL_run (known_insert d) w args = appendValuesToSQL d w args"
  by (simp add: appendValuesToSQL_run_def appendValuesToSQL_def known_insert_def)

lemma known_appendSelectToSQL:
  "appendSelectToSQL_run (pure_AppendToSql ap) (known_insert d) w args =
     (\<lambda>s. (appendSelectToSQL ap d w args, s))"
  unfolding appendSelectToSQL_run_def appendSelectToSQL_def known_insert_def
  apply (simp only: insertData_run.simps)
  apply (cases "Select d")
  apply (simp_all only: option.case option.map known_select_run r_return r_prod r_bind)
  done

lemma known_insert_run:
  "insertData_run_ToSql (pure_AppendToSql ap) (known_insert d) =
   (\<lambda>s. (insertData_ToSql ap d, s))"
proof -
  have sel: "irun_Select (known_insert d) \<noteq> None \<longleftrightarrow> Select d \<noteq> None"
    by (simp add: known_insert_def)
  have sel': "irun_Select (known_insert d) = None \<longleftrightarrow> Select d = None"
    by (simp add: known_insert_def)
  have fields:
    "irun_Into (known_insert d) = Into d"
    "irun_Values (known_insert d) = Values d"
    "irun_Prefixes (known_insert d) = insertData.Prefixes d"
    "irun_Options (known_insert d) = insertData.Options d"
    "irun_Columns (known_insert d) = insertData.Columns d"
    "irun_Suffixes (known_insert d) = insertData.Suffixes d"
    "irun_PlaceholderFormat (known_insert d) = (\<lambda>sql s. (insertData.PlaceholderFormat d sql, s))"
    by (simp_all add: known_insert_def)
  show ?thesis
    unfolding insertData_run_ToSql_def insertData_ToSql_def
    apply (simp only: fields sel sel' known_appendValuesToSQL known_appendSelectToSQL Let_def)
    apply (simp only: r_return r_pre r_suf r_fmt r_bind r_prod r_if r_opt r_opt_eta
             cong: option.case_cong prod.case_cong)
    apply (simp only: bind_result_Inr if_Inr cong: option.case_cong prod.case_cong)
    done
qed

text \<open>
  Claim C3, as stated, fails: a SELECT snapshot whose column is a part that wraps a foreign
  fragment renders \<^verbatim>\<open>SELECT id, name FROM users\<close> at the first call and
  \<^verbatim>\<open>SELECT name, id FROM users\<close> at the second, which starts from the state that the first
  call left.
\<close>

theorem render_varies_with_fragment:
  "selectData_run_ToSql exprs_AppendToSql_run
     (example_select_run [PartOf (Foreign example_varying_columns) []]) 0 =
     (Inr (''SELECT id, name FROM users'', []), 1) \<and>
   selectData_run_ToSql exprs_AppendToSql_run
     (example_select_run [PartOf (Foreign example_varying_columns) []]) 1 =
     (Inr (''SELECT name, id FROM users'', []), 2)"
  by (simp add: example_select_run_def example_varying_columns_def selectData_run_ToSql_def
        appendToSql_run_def bind_run_def return_run_def panic_on_err_run_def panic_on_err_def
        Buffer_WriteString_def Question_run_def Question_def newPart_def)

text \<open>
  Claim C3, amended. For every SELECT or INSERT snapshot that is fixed (the \<^verbatim>\<open>ToSql\<close> of
  each of its fragments and its placeholder format return the same result at every call
  and change no state), and with the sequencer of prefixes and suffixes fixed as well, the
  render call returns one and the same result from every state, the same text and
  arguments or the same failure, and leaves the state as it is; any number of render
  calls on the snapshot, or on a builder that refers to it, return that result. The
  assemblers add no state and no variation of their own. On a snapshot of the model
  above, whose fragments are parts, raw expressions and fragments with a fixed result,
  that result is the one the render above gives.
\<close>

theorem render_fixed_by_fragments:
  "(fixed_AppendToSql ap \<and> fixed_select d \<longrightarrow>
      (\<exists>r. \<forall>s. selectData_run_ToSql ap d s = (r, s))) \<and>
   (fixed_AppendToSql ap \<and> fixed_insert di \<longrightarrow>
      (\<exists>r. \<forall>s. insertData_run_ToSql ap di s = (r, s))) \<and>
   (fixed_AppendToSql ap \<and> fixed_select (builder_GetStruct st b) \<longrightarrow>
      (\<exists>r. \<forall>s. SelectBuilder_run_ToSql ap st b s = (r, s))) \<and>
   (fixed_AppendToSql ap \<and> fixed_insert (builder_GetStruct ist ib) \<longrightarrow>
      (\<exists>r. \<forall>s. InsertBuilder_run_ToSql ap ist ib s = (r, s))) \<and>
   selectData_run_ToSql (pure_AppendToSql pap) (known_select kd) t =
     (selectData_ToSql pap kd, t) \<and>
   insertData_run_ToSql (pure_AppendToSql pap) (known_insert kdi) t =
     (insertData_ToSql pap kdi, t)"
  using fixed_select_render [of ap d] fixed_insert_render [of ap di]
    fixed_select_render [of ap "builder_GetStruct st b"]
    fixed_insert_render [of ap "builder_GetStruct ist ib"]
  by (simp add: fixed_run_def SelectBuilder_run_ToSql_def InsertBuilder_run_ToSql_def
        known_select_run known_insert_run)

theorem render_fixed_by_fragments_witness:
  "fixed_AppendToSql (exprs_AppendToSql_run :: nat AppendToSql_run) \<and>
   fixed_select (example_select_run [Known (newPart (VString ''id'') [])]) \<and>
   fixed_insert example_insert_run \<and>
   selectData_run_ToSql exprs_AppendToSql_run
     (example_select_run [Known (newPart (VString ''id'') [])]) 0 =
     (Inr (''SELECT id FROM users'', []), 0) \<and>
   selectData_run_ToSql exprs_AppendToSql_run
     (example_select_run [Known (newPart (VString ''id'') [])]) 1 =
     (Inr (''SELECT id FROM users'', []), 1) \<and>
   insertData_run_ToSql exprs_AppendToSql_run example_insert_run 0 =
     (Inr (''INSERT INTO archive (id) SELECT id FROM users'', []), 0) \<and>
   insertData_run_ToSql exprs_AppendToSql_run example_insert_run 1 =
     (Inr (''INSERT INTO archive (id) SELECT id FROM users'', []), 1) \<and>
   selectData_run_ToSql (pure_AppendToSql exprs_AppendToSql) (known_select example_select)
     (5::nat) = (Inr (''SELECT id FROM users'', []), 5)"
proof -
  have ap: "fixed_AppendToSql (exprs_AppendToSql_run :: nat AppendToSql_run)"
    by (rule fixed_exprs_AppendToSql_run)
  have sel: "fixed_select (example_select_run [Known (newPart (VString ''id'') [])])"
    by (simp add: fixed_select_def example_select_run_def fixed_Known fixed_Question_run)
  have ins: "fixed_insert example_insert_run"
    using sel by (simp add: fixed_insert_def example_insert_run_def fixed_Question_run)
  have sel0:
    "selectData_run_ToSql exprs_AppendToSql_run
       (example_select_run [Known (newPart (VString ''id'') [])]) 0 =
       (Inr (''SELECT id FROM users'', []), 0)"
    by (simp add: example_select_run_def selectData_run_ToSql_def
        appendToSql_run_def bind_run_def return_run_def panic_on_err_run_def panic_on_err_def
        Buffer_WriteString_def Question_run_def Question_def newPart_def)
  have ins0:
    "insertData_run_ToSql exprs_AppendToSql_run example_insert_run 0 =
       (Inr (''INSERT INTO archive (id) SELECT id FROM users'', []), 0)"
    by (simp add: example_insert_run_def insertData_run_ToSql_def appendSelectToSQL_run_def
        example_select_run_def selectData_run_ToSql_def
        appendToSql_run_def bind_run_def return_run_def panic_on_err_run_def panic_on_err_def
        Buffer_WriteString_def Question_run_def Question_def newPart_def)
  note fixed = render_fixed_by_fragments
      [of exprs_AppendToSql_run "example_select_run [Known (newPart (VString ''id'') [])]"
          example_insert_run _ _ _ _ exprs_AppendToSql example_select "5::nat"]
  from fixed example_select_ToSql have known:
    "selectData_run_ToSql (pure_AppendToSql exprs_AppendToSql) (known_select example_select)
       (5::nat) = (Inr (''SELECT id FROM users'', []), 5)"
    by simp
  from fixed ap sel obtain r where r:
    "\<And>s. selectData_run_ToSql exprs_AppendToSql_run
       (example_select_run [Known (newPart (VString ''id'') [])]) s = (r, s)"
    by blast
  from fixed ap ins obtain q where q:
    "\<And>s. insertData_run_ToSql exprs_AppendToSql_run example_insert_run s = (q, s)"
    by blast
  from r [of 0] sel0 have r0: "r = Inr (''SELECT id FROM users'', [])" by simp
  from q [of 0] ins0 have q0: "q = Inr (''INSERT INTO archive (id) SELECT id FROM users'', [])"
    by simp
  show ?thesis
    using ap sel ins sel0 ins0 r [of 1] q [of 1] known by (simp only: r0 q0 simp_thms)
qed

end
